theory Spec2Isabelle
  imports Complex_Main
begin

text \<open>
  A model of the two generations of the interpreter: the prototype of \<open>spam.py\<close>
  (lexer, parser, evaluator, driver) and the extended implementation of the package
  \<open>viper\<close> (syntax tree with its \<open>eval\<close> and \<open>exec\<close> methods, interpreter runtime).

  Names follow the source. Members of the enumerations \<open>TokenKind\<close>,
  \<open>StatementKind\<close> and \<open>ExpressionKind\<close> carry the prefixes \<open>TK_\<close>, \<open>SK_\<close> and
  \<open>EK_\<close>; the prototype's \<open>Interpreter\<close> and its methods carry the prefix
  \<open>spam_\<close>; the classes of the extended implementation carry the prefix \<open>V_\<close> and
  its methods the prefix \<open>viper_\<close>. Where a source name is reserved, the model
  uses \<open>identifier_tok\<close> for \<open>Tokenizer.identifier\<close>, \<open>tvalue\<close> for \<open>Token.value\<close>,
  \<open>match_tok\<close> for \<open>Parser.match\<close>, \<open>functions'\<close> for \<open>Interpreter.functions\<close> and
  \<open>source_program\<close> for the module-level \<open>source\<close>.
\<close>

section \<open>Host values and failures\<close>

text \<open>
  The interpreters are Python programs. Every way in which the Python code can stop
  early is a constructor of \<open>error\<close>; a function that can raise returns
  \<open>error + 'a\<close> with \<open>Inl\<close> for the raised exception.
\<close>

datatype error =
    IndexError              \<comment> \<open>string or list index out of range\<close>
  | KeyError                \<comment> \<open>missing dictionary key\<close>
  | AttributeError          \<comment> \<open>attribute read on an object that lacks it\<close>
  | TypeError               \<comment> \<open>operator applied to \<open>None\<close>\<close>
  | ZeroDivisionError
  | ValueError              \<comment> \<open>\<open>float(...)\<close> on a non-numeric string\<close>
  | AssertionError          \<comment> \<open>a failed \<open>assert\<close>, including \<open>assert False\<close>\<close>
  | UnknownToken            \<comment> \<open>\<open>Exception("Unknown token.")\<close>\<close>
  | UnknownOperator         \<comment> \<open>\<open>Exception("Unknown operator.")\<close>\<close>
  | NotDefined string       \<comment> \<open>\<open>Exception(f"{name} is not defined.")\<close>\<close>

text \<open>
  Runtime values. The language's numbers are Python floats, produced by
  \<open>float(token.value)\<close>; \<open><\<close> yields a Python bool; arithmetic on two bools
  yields a Python int; a call without \<open>return\<close> and an assignment yield
  \<open>None\<close>. Floats are modelled by the rationals with exact arithmetic: rounding,
  overflow to infinity and NaN are outside the model, and the conversion of an int to
  a float is exact.
\<close>

datatype val = PyNone | PyBool bool | PyInt int | PyFloat rat

fun is_float :: "val \<Rightarrow> bool" where
  "is_float (PyFloat _) = True"
| "is_float _ = False"

fun as_int :: "val \<Rightarrow> int" where
  "as_int (PyBool b) = (if b then 1 else 0)"
| "as_int (PyInt i) = i"
| "as_int _ = 0"

fun as_float :: "val \<Rightarrow> rat" where
  "as_float (PyFloat f) = f"
| "as_float v = of_int (as_int v)"

text \<open>Truthiness, as used by \<open>if\<close> and \<open>while\<close> on the value of a condition.\<close>

fun truthy :: "val \<Rightarrow> bool" where
  "truthy PyNone = False"
| "truthy (PyBool b) = b"
| "truthy (PyInt i) = (i \<noteq> 0)"
| "truthy (PyFloat f) = (f \<noteq> 0)"

text \<open>
  The host operators \<open>+ - *\<close>: \<open>None\<close> operands raise TypeError, a float operand
  makes the result a float, otherwise the result is an int.
\<close>

definition py_arith :: "(int \<Rightarrow> int \<Rightarrow> int) \<Rightarrow> (rat \<Rightarrow> rat \<Rightarrow> rat) \<Rightarrow> val \<Rightarrow> val \<Rightarrow> error + val" where
  "py_arith iop fop a b =
     (if a = PyNone \<or> b = PyNone then Inl TypeError
      else if is_float a \<or> is_float b then Inr (PyFloat (fop (as_float a) (as_float b)))
      else Inr (PyInt (iop (as_int a) (as_int b))))"

definition py_add :: "val \<Rightarrow> val \<Rightarrow> error + val" where
  "py_add = py_arith (+) (+)"

definition py_sub :: "val \<Rightarrow> val \<Rightarrow> error + val" where
  "py_sub = py_arith (-) (-)"

definition py_mul :: "val \<Rightarrow> val \<Rightarrow> error + val" where
  "py_mul = py_arith (*) (*)"

text \<open>True division: always a float, ZeroDivisionError on a zero divisor.\<close>

definition py_truediv :: "val \<Rightarrow> val \<Rightarrow> error + val" where
  "py_truediv a b =
     (if a = PyNone \<or> b = PyNone then Inl TypeError
      else if as_float b = 0 then Inl ZeroDivisionError
      else Inr (PyFloat (as_float a / as_float b)))"

definition py_lt :: "val \<Rightarrow> val \<Rightarrow> error + val" where
  "py_lt a b =
     (if a = PyNone \<or> b = PyNone then Inl TypeError
      else Inr (PyBool (as_float a < as_float b)))"

text \<open>Sequencing of fallible steps.\<close>

definition bind :: "error + 'a \<Rightarrow> ('a \<Rightarrow> error + 'b) \<Rightarrow> error + 'b" where
  "bind m f = (case m of Inl e \<Rightarrow> Inl e | Inr x \<Rightarrow> f x)"

section \<open>Prototype lexer (spam.py)\<close>

datatype token_kind =
    TK_PRINT | TK_LET | TK_NUMBER | TK_PLUS | TK_MINUS | TK_STAR | TK_SLASH | TK_EQUAL
  | TK_LPAREN | TK_RPAREN | TK_LBRACE | TK_RBRACE | TK_IF | TK_ELSE | TK_FN | TK_RETURN
  | TK_LT | TK_COMMA | TK_SEMICOLON | TK_IDENTIFIER | TK_EOF

datatype token = Token (kind: token_kind) (tvalue: string)

record tokenizer =
  source :: string
  current :: int

text \<open>
  Character classes on ASCII text (the model's strings are byte strings):
  \<open>str.isalpha\<close>, \<open>str.isdigit\<close>, \<open>str.isspace\<close>.
\<close>

definition isalpha :: "char \<Rightarrow> bool" where
  "isalpha c = (let n = (of_char c :: nat) in (65 \<le> n \<and> n \<le> 90) \<or> (97 \<le> n \<and> n \<le> 122))"

definition isdigit :: "char \<Rightarrow> bool" where
  "isdigit c = (let n = (of_char c :: nat) in 48 \<le> n \<and> n \<le> 57)"

definition isspace :: "char \<Rightarrow> bool" where
  "isspace c = (let n = (of_char c :: nat) in (9 \<le> n \<and> n \<le> 13) \<or> (28 \<le> n \<and> n \<le> 32))"

text \<open>\<open>s[i]\<close>: a negative index counts from the end; out of range raises IndexError.\<close>

definition py_index :: "'a list \<Rightarrow> int \<Rightarrow> error + 'a" where
  "py_index s i =
     (let n = int (length s); j = (if i < 0 then n + i else i)
      in if 0 \<le> j \<and> j < n then Inr (s ! nat j) else Inl IndexError)"

text \<open>\<open>s[a:b]\<close>: negative bounds count from the end, then both are clipped; never raises.\<close>

definition py_slice :: "'a list \<Rightarrow> int \<Rightarrow> int \<Rightarrow> 'a list" where
  "py_slice s a b =
     (let n = int (length s);
          lo = (if a < 0 then max 0 (n + a) else min a n);
          hi = (if b < 0 then max 0 (n + b) else min b n)
      in take (nat (hi - lo)) (drop (nat lo) s))"

text \<open>
  The scanning loops of \<open>identifier\<close> and \<open>number\<close>: advance \<open>c\<close> while the
  character at \<open>c\<close> belongs to the class. The loop has no bound check, so reaching
  the end of the source raises IndexError.
\<close>

function scan_while :: "(char \<Rightarrow> bool) \<Rightarrow> string \<Rightarrow> int \<Rightarrow> error + int" where
  "scan_while p s c =
     (case py_index s c of
        Inl e \<Rightarrow> Inl e
      | Inr ch \<Rightarrow> if p ch then scan_while p s (c + 1) else Inr c)"
  by pat_completeness auto
termination
  by (relation "measure (\<lambda>(p, s, c). nat (int (length s) - c))")
     (auto simp: py_index_def Let_def split: if_splits)

definition identifier_tok :: "tokenizer \<Rightarrow> error + (token \<times> tokenizer)" where
  "identifier_tok t =
     bind (scan_while (\<lambda>ch. isalpha ch \<or> isdigit ch \<or> ch = CHR ''_'') (source t) (current t))
       (\<lambda>c. Inr (Token TK_IDENTIFIER (py_slice (source t) (current t) c),
                 t\<lparr>current := c - 1\<rparr>))"

definition number :: "tokenizer \<Rightarrow> error + (token \<times> tokenizer)" where
  "number t =
     bind (scan_while isdigit (source t) (current t))
       (\<lambda>c. Inr (Token TK_NUMBER (py_slice (source t) (current t) c),
                 t\<lparr>current := c - 1\<rparr>))"

definition lookahead :: "tokenizer \<Rightarrow> string \<Rightarrow> bool \<times> tokenizer" where
  "lookahead t thing =
     (if py_slice (source t) (current t + 1) (current t + int (length thing) + 1) = thing
      then (True, t\<lparr>current := current t + int (length thing)\<rparr>)
      else (False, t))"

text \<open>A keyword case of the \<open>match\<close>: the keyword on a successful lookahead, else an identifier.\<close>

definition keyword_or_identifier :: "tokenizer \<Rightarrow> string \<Rightarrow> token \<Rightarrow> error + (token \<times> tokenizer)" where
  "keyword_or_identifier t thing tok =
     (case lookahead t thing of
        (True, t') \<Rightarrow> Inr (tok, t')
      | (False, t') \<Rightarrow> identifier_tok t')"

text \<open>The \<open>match\<close> statement of \<open>tokenize\<close> on the current character \<open>v\<close>, cases in source order.\<close>

definition scan_token :: "tokenizer \<Rightarrow> char \<Rightarrow> error + (token \<times> tokenizer)" where
  "scan_token t v =
     (if v = CHR ''i'' then keyword_or_identifier t ''f'' (Token TK_IF ''if'')
      else if v = CHR ''f'' then keyword_or_identifier t ''n'' (Token TK_FN ''fn'')
      else if v = CHR ''e'' then keyword_or_identifier t ''lse'' (Token TK_ELSE ''else'')
      else if v = CHR ''l'' then keyword_or_identifier t ''et'' (Token TK_LET ''let'')
      else if v = CHR ''p'' then keyword_or_identifier t ''rint'' (Token TK_PRINT ''print'')
      else if v = CHR ''r'' then keyword_or_identifier t ''eturn'' (Token TK_RETURN ''return'')
      else if isalpha v then identifier_tok t
      else if isdigit v then number t
      else if v = CHR ''+'' then Inr (Token TK_PLUS ''+'', t)
      else if v = CHR ''-'' then Inr (Token TK_MINUS ''-'', t)
      else if v = CHR ''*'' then Inr (Token TK_STAR ''*'', t)
      else if v = CHR ''/'' then Inr (Token TK_SLASH ''/'', t)
      else if v = CHR ''='' then Inr (Token TK_EQUAL ''='', t)
      else if v = CHR '';'' then Inr (Token TK_SEMICOLON '';'', t)
      else if v = CHR '','' then Inr (Token TK_COMMA '','', t)
      else if v = CHR ''('' then Inr (Token TK_LPAREN ''('', t)
      else if v = CHR '')'' then Inr (Token TK_RPAREN '')'', t)
      else if v = CHR ''{'' then Inr (Token TK_LBRACE ''{'', t)
      else if v = CHR ''}'' then Inr (Token TK_RBRACE ''}'', t)
      else if v = CHR ''<'' then Inr (Token TK_LT ''<'', t)
      else Inl UnknownToken)"

lemma scan_while_gt:
  "py_index s c = Inr v \<Longrightarrow> p v \<Longrightarrow> scan_while p s c = Inr c' \<Longrightarrow> c < c'"
proof -
  have ge: "scan_while p s d = Inr c' \<Longrightarrow> d \<le> c'" for d
  proof (induction p s d rule: scan_while.induct)
    case (1 p s d)
    from "1.prems" have
      "(case py_index s d of Inl e \<Rightarrow> Inl e
        | Inr ch \<Rightarrow> if p ch then scan_while p s (d + 1) else Inr d) = Inr c'"
      by (subst (asm) scan_while.simps)
    then show ?case
      using "1.IH" by (auto split: sum.splits if_splits)
  qed
  assume "py_index s c = Inr v" "p v" "scan_while p s c = Inr c'"
  then have "scan_while p s (c + 1) = Inr c'" by (subst (asm) scan_while.simps) simp
  from ge [OF this] show ?thesis by simp
qed

lemma scan_token_progress:
  assumes "py_index (source t) (current t) = Inr v" and "scan_token t v = Inr (tok, t')"
  shows "source t' = source t \<and> current t \<le> current t'"
proof -
  have ident: "identifier_tok t = Inr (tok, t') \<Longrightarrow> isalpha v \<Longrightarrow> ?thesis"
    using assms(1) scan_while_gt [of "source t" "current t" v "\<lambda>ch. isalpha ch \<or> isdigit ch \<or> ch = CHR ''_''"]
    by (auto simp: identifier_tok_def bind_def split: sum.splits)
  have num: "number t = Inr (tok, t') \<Longrightarrow> isdigit v \<Longrightarrow> ?thesis"
    using assms(1) scan_while_gt [of "source t" "current t" v isdigit]
    by (auto simp: number_def bind_def split: sum.splits)
  have kw: "keyword_or_identifier t thing k = Inr (tok, t') \<Longrightarrow> isalpha v \<Longrightarrow> ?thesis" for thing k
    using ident by (auto simp: keyword_or_identifier_def lookahead_def split: if_splits)
  have alpha: "isalpha CHR ''i''" "isalpha CHR ''f''" "isalpha CHR ''e''" "isalpha CHR ''l''"
    "isalpha CHR ''p''" "isalpha CHR ''r''"
    by (simp_all add: isalpha_def)
  from assms(2) show ?thesis
    unfolding scan_token_def using kw ident num alpha
    by (auto split: if_splits)
qed

text \<open>
  The main loop of \<open>tokenize\<close>: skip whitespace, otherwise scan one token and step past
  it; at the end of the source append the EOF token.
\<close>

function tokenize_loop :: "tokenizer \<Rightarrow> token list \<Rightarrow> error + token list" where
  "tokenize_loop t tokens =
     (if current t < int (length (source t)) then
        (case py_index (source t) (current t) of
           Inl e \<Rightarrow> Inl e
         | Inr v \<Rightarrow>
             if isspace v then tokenize_loop (t\<lparr>current := current t + 1\<rparr>) tokens
             else (case scan_token t v of
                     Inl e \<Rightarrow> Inl e
                   | Inr (tok, t') \<Rightarrow>
                       tokenize_loop (t'\<lparr>current := current t' + 1\<rparr>) (tokens @ [tok])))
      else Inr (tokens @ [Token TK_EOF '''']))"
  by pat_completeness auto
termination
proof (relation "measure (\<lambda>(t, tokens). nat (int (length (source t)) - current t))")
  show "wf (measure (\<lambda>(t, tokens). nat (int (length (source t)) - current t)))" by simp
next
  fix t :: tokenizer and tokens :: "token list" and v
  assume "current t < int (length (source t))"
  then show "((t\<lparr>current := current t + 1\<rparr>, tokens), (t, tokens))
      \<in> measure (\<lambda>(t, tokens). nat (int (length (source t)) - current t))"
    by simp
next
  fix t :: tokenizer and tokens :: "token list" and v x tok t'
  assume "current t < int (length (source t))" "py_index (source t) (current t) = Inr v"
    "scan_token t v = Inr x" "(tok, t') = x"
  then show "((t'\<lparr>current := current t' + 1\<rparr>, tokens @ [tok]), (t, tokens))
      \<in> measure (\<lambda>(t, tokens). nat (int (length (source t)) - current t))"
    using scan_token_progress [of t v tok t'] by auto
qed

definition tokenize :: "tokenizer \<Rightarrow> error + token list" where
  "tokenize t = tokenize_loop t []"

text \<open>\<open>Tokenizer(source)\<close>: the cursor starts at 0.\<close>

definition Tokenizer :: "string \<Rightarrow> tokenizer" where
  "Tokenizer src = \<lparr>source = src, current = 0\<rparr>"

section \<open>Prototype syntax trees (spam.py)\<close>

text \<open>
  The prototype wraps every node in a tagged pair: \<open>Expression(kind, value)\<close> and
  \<open>Statement(kind, stmt)\<close>. The evaluator dispatches on the tag and then asserts the
  class of the payload, so the model keeps tag and payload apart.
\<close>

datatype statement_kind = SK_LET | SK_PRINT | SK_IF | SK_FN | SK_BLOCK | SK_RETURN | SK_EXPRESSION

datatype expression_kind = EK_ASSIGN | EK_BINARY | EK_LITERAL | EK_VARIABLE | EK_CALL

datatype binary_expression_kind = ADD | SUB | MUL | DIV | LT | ASSIGN

datatype expression = Expression (ekind: expression_kind) (evalue: expression_value)
  and expression_value =
      CallExpression expression "expression list"
    | LiteralExpression rat
    | VariableExpression string
    | BinaryExpression binary_expression_kind expression expression

datatype statement = Statement (skind: statement_kind) (stmt: statement_value)
  and statement_value =
      LetStatement expression
    | PrintStatement expression
    | IfStatement expression statement "statement option"
    | FnStatement string "expression list" "statement list"
    | BlockStatement "statement list"
    | ReturnStatement expression
    | ExpressionStatement expression

section \<open>Prototype parser (spam.py)\<close>

text \<open>
  The parser's recursion follows the token list, which shrinks in a way the definitions
  below do not expose; they take a recursion budget instead. \<open>None\<close> means the budget
  ran out, \<open>Some (Inl e)\<close> that the parser raised \<open>e\<close>, \<open>Some (Inr x)\<close> that it
  returned \<open>x\<close>. The parser's state is its token list, consumed from the front.
\<close>

type_synonym 'a outcome = "(error + 'a) option"

definition ret :: "'a \<Rightarrow> 'a outcome" where
  "ret x = Some (Inr x)"

definition raise :: "error \<Rightarrow> 'a outcome" where
  "raise e = Some (Inl e)"

definition lift :: "error + 'a \<Rightarrow> 'a outcome" where
  "lift m = Some m"

definition obind :: "'a outcome \<Rightarrow> ('a \<Rightarrow> 'b outcome) \<Rightarrow> 'b outcome" where
  "obind m f = (case m of None \<Rightarrow> None | Some (Inl e) \<Rightarrow> Some (Inl e) | Some (Inr x) \<Rightarrow> f x)"

lemma obind_cong [fundef_cong]:
  "m = m' \<Longrightarrow> (\<And>x. m' = Some (Inr x) \<Longrightarrow> f x = f' x) \<Longrightarrow> obind m f = obind m' f'"
  by (auto simp: obind_def split: option.splits sum.splits)

datatype prefix_parselet = NumberParselet | NameParselet

datatype infix_parselet = BinaryOperatorParselet | CallParselet

fun precedence :: "token_kind \<Rightarrow> int option" where
  "precedence TK_EQUAL = Some 1"
| "precedence TK_LT = Some 2"
| "precedence TK_PLUS = Some 3"
| "precedence TK_MINUS = Some 3"
| "precedence TK_STAR = Some 4"
| "precedence TK_SLASH = Some 4"
| "precedence TK_LPAREN = Some 8"
| "precedence TK_NUMBER = Some 10"
| "precedence _ = None"

text \<open>The parselets registered by \<open>Parser.__init__\<close>.\<close>

fun prefix_parselets :: "token_kind \<Rightarrow> prefix_parselet option" where
  "prefix_parselets TK_NUMBER = Some NumberParselet"
| "prefix_parselets TK_IDENTIFIER = Some NameParselet"
| "prefix_parselets _ = None"

fun infix_parselets :: "token_kind \<Rightarrow> infix_parselet option" where
  "infix_parselets TK_PLUS = Some BinaryOperatorParselet"
| "infix_parselets TK_MINUS = Some BinaryOperatorParselet"
| "infix_parselets TK_STAR = Some BinaryOperatorParselet"
| "infix_parselets TK_SLASH = Some BinaryOperatorParselet"
| "infix_parselets TK_EQUAL = Some BinaryOperatorParselet"
| "infix_parselets TK_LT = Some BinaryOperatorParselet"
| "infix_parselets TK_LPAREN = Some CallParselet"
| "infix_parselets _ = None"

text \<open>
  \<open>float(token.value)\<close> on a string of decimal digits, which is what \<open>number\<close>
  produces; any other string is reported as ValueError.
\<close>

definition py_float :: "string \<Rightarrow> error + rat" where
  "py_float s =
     (if s \<noteq> [] \<and> list_all isdigit s
      then Inr (of_nat (foldl (\<lambda>a c. 10 * a + (of_char c - 48)) 0 s))
      else Inl ValueError)"

definition consume :: "token_kind option \<Rightarrow> token list \<Rightarrow> error + (token \<times> token list)" where
  "consume k tokens =
     (case tokens of
        [] \<Rightarrow> Inl AssertionError
      | t # rest \<Rightarrow>
          (case k of
             Some kd \<Rightarrow> if kind t = kd then Inr (t, rest) else Inl AssertionError
           | None \<Rightarrow> Inr (t, rest)))"

definition next_token_precedence :: "token list \<Rightarrow> int" where
  "next_token_precedence tokens =
     (case tokens of
        [] \<Rightarrow> 0
      | t # _ \<Rightarrow> (case precedence (kind t) of None \<Rightarrow> 0 | Some p \<Rightarrow> p))"

definition check :: "token_kind \<Rightarrow> token list \<Rightarrow> error + bool" where
  "check k tokens = (case tokens of [] \<Rightarrow> Inl IndexError | t # _ \<Rightarrow> Inr (kind t = k))"

fun match_tok :: "token_kind list \<Rightarrow> token list \<Rightarrow> error + (bool \<times> token list)" where
  "match_tok [] tokens = Inr (False, tokens)"
| "match_tok (k # kinds) tokens =
     bind (check k tokens)
       (\<lambda>c. if c then bind (consume (Some k) tokens) (\<lambda>(t, rest). Inr (True, rest))
            else match_tok kinds tokens)"

definition prefix_parse :: "prefix_parselet \<Rightarrow> token \<Rightarrow> error + expression" where
  "prefix_parse p token =
     (case p of
        NumberParselet \<Rightarrow>
          bind (py_float (tvalue token)) (\<lambda>f. Inr (Expression EK_LITERAL (LiteralExpression f)))
      | NameParselet \<Rightarrow> Inr (Expression EK_VARIABLE (VariableExpression (tvalue token))))"

text \<open>The \<open>match token.value\<close> of \<open>BinaryOperatorParselet.parse\<close>.\<close>

definition binary_node :: "string \<Rightarrow> expression \<Rightarrow> expression \<Rightarrow> error + expression" where
  "binary_node v left right =
     (if v = ''+'' then Inr (Expression EK_BINARY (BinaryExpression ADD left right))
      else if v = ''-'' then Inr (Expression EK_BINARY (BinaryExpression SUB left right))
      else if v = ''*'' then Inr (Expression EK_BINARY (BinaryExpression MUL left right))
      else if v = ''/'' then Inr (Expression EK_BINARY (BinaryExpression DIV left right))
      else if v = ''<'' then Inr (Expression EK_BINARY (BinaryExpression LT left right))
      else if v = ''='' then Inr (Expression EK_ASSIGN (BinaryExpression ASSIGN left right))
      else Inl UnknownOperator)"

text \<open>
  \<open>parse_expression\<close> with its \<open>while\<close> loop (\<open>infix_loop\<close>), the two parselets
  (\<open>infix_parse\<close>) and the argument loop of the call parselet (\<open>call_args\<close>). In the
  prototype the call parselet consumes a closing parenthesis after the \<open>if\<close>, also
  when \<open>match\<close> has already consumed it.
\<close>

function (sequential) parse_expression :: "nat \<Rightarrow> int \<Rightarrow> token list \<Rightarrow> (expression \<times> token list) outcome"
  and infix_loop :: "nat \<Rightarrow> int \<Rightarrow> expression \<Rightarrow> token list \<Rightarrow> (expression \<times> token list) outcome"
  and infix_parse :: "nat \<Rightarrow> infix_parselet \<Rightarrow> expression \<Rightarrow> token \<Rightarrow> token list \<Rightarrow> (expression \<times> token list) outcome"
  and call_args :: "nat \<Rightarrow> expression list \<Rightarrow> token list \<Rightarrow> (expression list \<times> token list) outcome"
where
  "parse_expression 0 desired_precedence tokens = None"
| "parse_expression (Suc n) desired_precedence tokens =
     obind (lift (consume None tokens)) (\<lambda>(token, tokens).
       case prefix_parselets (kind token) of
         None \<Rightarrow> raise AssertionError
       | Some p \<Rightarrow>
           obind (lift (prefix_parse p token)) (\<lambda>left.
             infix_loop n desired_precedence left tokens))"
| "infix_loop 0 desired_precedence left tokens = None"
| "infix_loop (Suc n) desired_precedence left tokens =
     (if desired_precedence < next_token_precedence tokens then
        obind (lift (consume None tokens)) (\<lambda>(token, tokens).
          case infix_parselets (kind token) of
            None \<Rightarrow> raise AssertionError
          | Some p \<Rightarrow>
              obind (infix_parse n p left token tokens) (\<lambda>(left, tokens).
                infix_loop n desired_precedence left tokens))
      else ret (left, tokens))"
| "infix_parse 0 p left token tokens = None"
| "infix_parse (Suc n) BinaryOperatorParselet left token tokens =
     (case precedence (kind token) of
        None \<Rightarrow> raise KeyError
      | Some prec \<Rightarrow>
          obind (parse_expression n prec tokens) (\<lambda>(right, tokens).
            obind (lift (binary_node (tvalue token) left right)) (\<lambda>e. ret (e, tokens))))"
| "infix_parse (Suc n) CallParselet left token tokens =
     obind (lift (match_tok [TK_RPAREN] tokens)) (\<lambda>(matched, tokens).
       obind (if \<not> matched then call_args n [] tokens else ret ([], tokens)) (\<lambda>(args, tokens).
         obind (lift (consume (Some TK_RPAREN) tokens)) (\<lambda>(t, tokens).
           ret (Expression EK_CALL (CallExpression left args), tokens))))"
| "call_args 0 args tokens = None"
| "call_args (Suc n) args tokens =
     obind (parse_expression n 0 tokens) (\<lambda>(e, tokens).
       obind (lift (match_tok [TK_COMMA] tokens)) (\<lambda>(matched, tokens).
         if \<not> matched then ret (args @ [e], tokens)
         else call_args n (args @ [e]) tokens))"
  by pat_completeness auto
termination
  by (relation "measure (\<lambda>x. case x of
        Inl (Inl (n, _)) \<Rightarrow> n | Inl (Inr (n, _)) \<Rightarrow> n
      | Inr (Inl (n, _)) \<Rightarrow> n | Inr (Inr (n, _)) \<Rightarrow> n)") auto

text \<open>
  Statements. \<open>parse_statement\<close> tries \<open>let, print, fn, if, return, {\<close> in this order
  and falls back to an expression statement. \<open>fn_arguments\<close> is the loop
  \<open>while not self.match([RPAREN]): arguments.append(self.parse_expression(0))\<close>,
  \<open>statements_until_rbrace\<close> the loop
  \<open>while not self.match([RBRACE]): body.append(self.parse_statement())\<close>.
\<close>

function (sequential) fn_arguments :: "nat \<Rightarrow> expression list \<Rightarrow> token list \<Rightarrow> (expression list \<times> token list) outcome" where
  "fn_arguments 0 arguments tokens = None"
| "fn_arguments (Suc n) arguments tokens =
     obind (lift (match_tok [TK_RPAREN] tokens)) (\<lambda>(matched, tokens).
       if matched then ret (arguments, tokens)
       else obind (parse_expression n 0 tokens) (\<lambda>(e, tokens).
              fn_arguments n (arguments @ [e]) tokens))"
  by pat_completeness auto
termination
  by (relation "measure (\<lambda>(n, _). n)") auto

definition expression_then_semicolon :: "nat \<Rightarrow> token list \<Rightarrow> (expression \<times> token list) outcome" where
  "expression_then_semicolon n tokens =
     obind (parse_expression n 0 tokens) (\<lambda>(expr, tokens).
       obind (lift (consume (Some TK_SEMICOLON) tokens)) (\<lambda>(t, tokens). ret (expr, tokens)))"

definition parse_print_statement :: "nat \<Rightarrow> token list \<Rightarrow> (statement \<times> token list) outcome" where
  "parse_print_statement n tokens =
     obind (expression_then_semicolon n tokens) (\<lambda>(expr, tokens).
       ret (Statement SK_PRINT (PrintStatement expr), tokens))"

definition parse_let_statement :: "nat \<Rightarrow> token list \<Rightarrow> (statement \<times> token list) outcome" where
  "parse_let_statement n tokens =
     obind (expression_then_semicolon n tokens) (\<lambda>(expr, tokens).
       ret (Statement SK_LET (LetStatement expr), tokens))"

definition parse_return_statement :: "nat \<Rightarrow> token list \<Rightarrow> (statement \<times> token list) outcome" where
  "parse_return_statement n tokens =
     obind (expression_then_semicolon n tokens) (\<lambda>(expr, tokens).
       ret (Statement SK_RETURN (ReturnStatement expr), tokens))"

definition parse_expression_statement :: "nat \<Rightarrow> token list \<Rightarrow> (statement \<times> token list) outcome" where
  "parse_expression_statement n tokens =
     obind (expression_then_semicolon n tokens) (\<lambda>(expr, tokens).
       ret (Statement SK_EXPRESSION (ExpressionStatement expr), tokens))"

function (sequential) parse_statement :: "nat \<Rightarrow> token list \<Rightarrow> (statement \<times> token list) outcome"
  and parse_fn_statement :: "nat \<Rightarrow> token list \<Rightarrow> (statement \<times> token list) outcome"
  and parse_if_statement :: "nat \<Rightarrow> token list \<Rightarrow> (statement \<times> token list) outcome"
  and parse_block_statement :: "nat \<Rightarrow> token list \<Rightarrow> (statement \<times> token list) outcome"
  and statements_until_rbrace :: "nat \<Rightarrow> statement list \<Rightarrow> token list \<Rightarrow> (statement list \<times> token list) outcome"
where
  "parse_statement 0 tokens = None"
| "parse_statement (Suc n) tokens =
     obind (lift (match_tok [TK_LET] tokens)) (\<lambda>(m, tokens).
     if m then parse_let_statement n tokens else
     obind (lift (match_tok [TK_PRINT] tokens)) (\<lambda>(m, tokens).
     if m then parse_print_statement n tokens else
     obind (lift (match_tok [TK_FN] tokens)) (\<lambda>(m, tokens).
     if m then parse_fn_statement n tokens else
     obind (lift (match_tok [TK_IF] tokens)) (\<lambda>(m, tokens).
     if m then parse_if_statement n tokens else
     obind (lift (match_tok [TK_RETURN] tokens)) (\<lambda>(m, tokens).
     if m then parse_return_statement n tokens else
     obind (lift (match_tok [TK_LBRACE] tokens)) (\<lambda>(m, tokens).
     if m then parse_block_statement n tokens else
     parse_expression_statement n tokens))))))"
| "parse_fn_statement 0 tokens = None"
| "parse_fn_statement (Suc n) tokens =
     obind (lift (consume (Some TK_IDENTIFIER) tokens)) (\<lambda>(name, tokens).
     obind (lift (consume (Some TK_LPAREN) tokens)) (\<lambda>(t, tokens).
     obind (fn_arguments n [] tokens) (\<lambda>(arguments, tokens).
     obind (lift (consume (Some TK_LBRACE) tokens)) (\<lambda>(t, tokens).
     obind (statements_until_rbrace n [] tokens) (\<lambda>(body, tokens).
       ret (Statement SK_FN (FnStatement (tvalue name) arguments body), tokens))))))"
| "parse_if_statement 0 tokens = None"
| "parse_if_statement (Suc n) tokens =
     obind (lift (consume (Some TK_LPAREN) tokens)) (\<lambda>(t, tokens).
     obind (parse_expression n 0 tokens) (\<lambda>(condition, tokens).
     obind (lift (consume (Some TK_RPAREN) tokens)) (\<lambda>(t, tokens).
     obind (parse_statement n tokens) (\<lambda>(then_branch, tokens).
     obind (lift (match_tok [TK_ELSE] tokens)) (\<lambda>(m, tokens).
     if m then
       obind (parse_statement n tokens) (\<lambda>(else_branch, tokens).
         ret (Statement SK_IF (IfStatement condition then_branch (Some else_branch)), tokens))
     else ret (Statement SK_IF (IfStatement condition then_branch None), tokens))))))"
| "parse_block_statement 0 tokens = None"
| "parse_block_statement (Suc n) tokens =
     obind (statements_until_rbrace n [] tokens) (\<lambda>(body, tokens).
       ret (Statement SK_BLOCK (BlockStatement body), tokens))"
| "statements_until_rbrace 0 body tokens = None"
| "statements_until_rbrace (Suc n) body tokens =
     obind (lift (match_tok [TK_RBRACE] tokens)) (\<lambda>(matched, tokens).
       if matched then ret (body, tokens)
       else obind (parse_statement n tokens) (\<lambda>(s, tokens).
              statements_until_rbrace n (body @ [s]) tokens))"
  by pat_completeness auto
termination
  by (relation "measure (\<lambda>x. case x of
        Inl (Inl (n, _)) \<Rightarrow> n | Inl (Inr (n, _)) \<Rightarrow> n
      | Inr (Inl (n, _)) \<Rightarrow> n | Inr (Inr (Inl (n, _))) \<Rightarrow> n | Inr (Inr (Inr (n, _))) \<Rightarrow> n)") auto

text \<open>\<open>Parser.parse\<close>: statements until the next token is EOF.\<close>

function (sequential) parse_loop :: "nat \<Rightarrow> statement list \<Rightarrow> token list \<Rightarrow> (statement list) outcome" where
  "parse_loop 0 ast tokens = None"
| "parse_loop (Suc n) ast tokens =
     obind (lift (py_index tokens 0)) (\<lambda>t.
       if \<not> (kind t = TK_EOF) then
         obind (parse_statement n tokens) (\<lambda>(s, tokens). parse_loop n (ast @ [s]) tokens)
       else ret ast)"
  by pat_completeness auto
termination
  by (relation "measure (\<lambda>(n, _). n)") auto

definition parse :: "nat \<Rightarrow> token list \<Rightarrow> (statement list) outcome" where
  "parse n tokens = parse_loop n [] tokens"

text \<open>The head of \<open>main\<close>: tokenize the source text, then parse the tokens.\<close>

definition parse_source :: "nat \<Rightarrow> string \<Rightarrow> (statement list) outcome" where
  "parse_source n src = obind (lift (tokenize (Tokenizer src))) (parse n)"

section \<open>Prototype evaluator (spam.py)\<close>

text \<open>
  \<open>Interpreter(locals, functions)\<close>, together with what has been printed so far:
  \<open>print(expr)\<close> appends the printed value to \<open>spam_printed\<close>. The function table
  holds the \<open>FnStatement\<close> payloads registered by executing \<open>fn\<close> statements.
\<close>

record spam_interpreter =
  spam_locals :: "string \<rightharpoonup> val"
  spam_functions :: "string \<rightharpoonup> statement_value"
  spam_printed :: "val list"

text \<open>
  An interpreted program may recurse for ever, so the evaluators carry a budget for the
  depth of nested calls of interpreted functions: \<open>None\<close> means the budget ran out.
  A call needs a positive budget and executes the function's body with one less; all
  other recursion is on the syntax tree.
\<close>

text \<open>\<open>self._eval(lhs) <op> self._eval(rhs)\<close>: left operand, then right operand, then the host operator.\<close>

definition binary :: "(val \<Rightarrow> val \<Rightarrow> error + val) \<Rightarrow> ('s \<Rightarrow> (val \<times> 's) outcome) \<Rightarrow> ('s \<Rightarrow> (val \<times> 's) outcome) \<Rightarrow> 's \<Rightarrow> (val \<times> 's) outcome" where
  "binary f l r s =
     obind (l s) (\<lambda>(a, s1). obind (r s1) (\<lambda>(b, s2). obind (lift (f a b)) (\<lambda>v. ret (v, s2))))"

lemma binary_cong [fundef_cong]:
  "(\<And>s. l s = l' s) \<Longrightarrow> (\<And>s. r s = r' s) \<Longrightarrow> s = s' \<Longrightarrow> binary f l r s = binary f l' r' s'"
  by (simp add: binary_def)

text \<open>\<open>x.value.name\<close> on a parameter or callee: only a \<open>VariableExpression\<close> payload has a \<open>name\<close>.\<close>

fun value_name :: "expression \<Rightarrow> error + string" where
  "value_name (Expression k (VariableExpression name)) = Inr name"
| "value_name _ = Inl AttributeError"

fun value_names :: "expression list \<Rightarrow> error + string list" where
  "value_names [] = Inr []"
| "value_names (x # xs) = bind (value_name x) (\<lambda>n. bind (value_names xs) (\<lambda>ns. Inr (n # ns)))"

text \<open>
  \<open>spam_eval\<close> is \<open>Interpreter._eval\<close>, \<open>spam_exec_stmt\<close> is \<open>Interpreter.exec_stmt\<close>,
  \<open>spam_exec\<close> is \<open>Interpreter.exec\<close>. \<open>spam_eval_args\<close> is the dictionary
  comprehension of a call: it pairs parameter names with arguments, stops at the shorter
  list, and evaluates the arguments from left to right in the caller's scope.
\<close>

function (sequential) spam_eval :: "nat \<Rightarrow> expression \<Rightarrow> spam_interpreter \<Rightarrow> (val \<times> spam_interpreter) outcome"
  and spam_eval_args :: "nat \<Rightarrow> string list \<Rightarrow> expression list \<Rightarrow> (string \<rightharpoonup> val) \<Rightarrow> spam_interpreter \<Rightarrow> ((string \<rightharpoonup> val) \<times> spam_interpreter) outcome"
  and spam_exec_stmt :: "nat \<Rightarrow> statement \<Rightarrow> spam_interpreter \<Rightarrow> (val \<times> spam_interpreter) outcome"
  and spam_exec :: "nat \<Rightarrow> statement list \<Rightarrow> spam_interpreter \<Rightarrow> (val \<times> spam_interpreter) outcome"
where
  "spam_eval n (Expression EK_LITERAL (LiteralExpression x)) s = ret (PyFloat x, s)"
| "spam_eval n (Expression EK_LITERAL _) s = raise AssertionError"
| "spam_eval n (Expression EK_VARIABLE (VariableExpression name)) s =
     (case spam_locals s name of None \<Rightarrow> raise KeyError | Some v \<Rightarrow> ret (v, s))"
| "spam_eval n (Expression EK_VARIABLE _) s = raise AssertionError"
| "spam_eval n (Expression EK_BINARY (BinaryExpression ADD lhs rhs)) s =
     binary py_add (spam_eval n lhs) (spam_eval n rhs) s"
| "spam_eval n (Expression EK_BINARY (BinaryExpression SUB lhs rhs)) s =
     binary py_sub (spam_eval n lhs) (spam_eval n rhs) s"
| "spam_eval n (Expression EK_BINARY (BinaryExpression MUL lhs rhs)) s =
     binary py_mul (spam_eval n lhs) (spam_eval n rhs) s"
| "spam_eval n (Expression EK_BINARY (BinaryExpression DIV lhs rhs)) s =
     binary py_truediv (spam_eval n lhs) (spam_eval n rhs) s"
| "spam_eval n (Expression EK_BINARY (BinaryExpression LT lhs rhs)) s =
     binary py_lt (spam_eval n lhs) (spam_eval n rhs) s"
| "spam_eval n (Expression EK_BINARY (BinaryExpression ASSIGN lhs rhs)) s = raise AssertionError"
| "spam_eval n (Expression EK_BINARY _) s = raise AssertionError"
| "spam_eval 0 (Expression EK_CALL (CallExpression callee args)) s = None"
| "spam_eval (Suc n) (Expression EK_CALL (CallExpression callee args)) s =
     obind (lift (value_name callee)) (\<lambda>name.
       case spam_functions s name of
         None \<Rightarrow> raise KeyError
       | Some (FnStatement fname arguments body) \<Rightarrow>
           obind (lift (value_names arguments)) (\<lambda>names.
           obind (spam_eval_args (Suc n) names args Map.empty s) (\<lambda>(new_locals, s1).
           obind (spam_exec n body (s1\<lparr>spam_locals := new_locals\<rparr>)) (\<lambda>(retval, s2).
             ret (retval, s2\<lparr>spam_locals := spam_locals s\<rparr>))))
       | Some _ \<Rightarrow> raise AttributeError)"
| "spam_eval n (Expression EK_CALL _) s = raise AssertionError"
| "spam_eval n (Expression EK_ASSIGN _) s = raise AssertionError"
| "spam_eval_args n (k # ks) (v # vs) acc s =
     obind (spam_eval n v s) (\<lambda>(x, s1). spam_eval_args n ks vs (acc(k \<mapsto> x)) s1)"
| "spam_eval_args n _ _ acc s = ret (acc, s)"
| "spam_exec_stmt n (Statement SK_PRINT (PrintStatement expr)) s =
     obind (spam_eval n expr s) (\<lambda>(v, s1).
       ret (PyNone, s1\<lparr>spam_printed := spam_printed s1 @ [v]\<rparr>))"
| "spam_exec_stmt n (Statement SK_PRINT _) s = raise AssertionError"
| "spam_exec_stmt n (Statement SK_IF (IfStatement condition then_branch else_branch)) s =
     obind (spam_eval n condition s) (\<lambda>(c, s1).
       if truthy c then spam_exec_stmt n then_branch s1 else ret (PyNone, s1))"
| "spam_exec_stmt n (Statement SK_IF _) s = raise AssertionError"
| "spam_exec_stmt n (Statement SK_FN (FnStatement name arguments body)) s =
     ret (PyNone, s\<lparr>spam_functions := (spam_functions s)(name \<mapsto> FnStatement name arguments body)\<rparr>)"
| "spam_exec_stmt n (Statement SK_FN _) s = raise AssertionError"
| "spam_exec_stmt n (Statement SK_RETURN (ReturnStatement expr)) s = spam_eval n expr s"
| "spam_exec_stmt n (Statement SK_RETURN _) s = raise AssertionError"
| "spam_exec_stmt n (Statement SK_EXPRESSION (ExpressionStatement expr)) s =
     obind (spam_eval n expr s) (\<lambda>(v, s1). ret (PyNone, s1))"
| "spam_exec_stmt n (Statement SK_EXPRESSION _) s = raise AssertionError"
| "spam_exec_stmt n (Statement SK_LET _) s = raise AssertionError"
| "spam_exec_stmt n (Statement SK_BLOCK _) s = raise AssertionError"
| "spam_exec n [] s = ret (PyNone, s)"
| "spam_exec n (st # ast) s =
     obind (spam_exec_stmt n st s) (\<lambda>(retval, s1).
       if retval \<noteq> PyNone then ret (retval, s1) else spam_exec n ast s1)"
  by pat_completeness auto
termination
  by (relation "inv_image (less_than <*lex*> less_than <*lex*> less_than) (\<lambda>x. case x of
        Inl (Inl (n, e, s)) \<Rightarrow> (n, 0, size e)
      | Inl (Inr (n, ks, vs, acc, s)) \<Rightarrow> (n, 0, size_list size vs)
      | Inr (Inl (n, st, s)) \<Rightarrow> (n, Suc 0, size st)
      | Inr (Inr (n, ast, s)) \<Rightarrow> (n, Suc 0, size_list size ast))") auto

section \<open>Prototype demo driver (spam.py)\<close>

text \<open>The module-level \<open>source\<close>: the dedented program text, 85 characters, ending in a newline.\<close>

definition source_program :: string where
  "source_program =
     [CHR 0x0A] @ ''fn fib(n) {'' @
     [CHR 0x0A] @ ''    if (n < 2) return n;'' @
     [CHR 0x0A] @ ''    return fib(n-1)+fib(n-2);'' @
     [CHR 0x0A] @ ''}'' @
     [CHR 0x0A] @ ''print fib(10);'' @
     [CHR 0x0A]"

text \<open>
  \<open>Interpreter(locals, functions)\<close> starts with nothing printed. \<open>main\<close>: tokenize,
  parse, execute with empty tables. Its observable effect is what it printed, so the
  model returns the list of printed values.
\<close>

definition spam_Interpreter :: "(string \<rightharpoonup> val) \<Rightarrow> (string \<rightharpoonup> statement_value) \<Rightarrow> spam_interpreter" where
  "spam_Interpreter l f = \<lparr>spam_locals = l, spam_functions = f, spam_printed = []\<rparr>"

definition main :: "nat \<Rightarrow> (val list) outcome" where
  "main n =
     obind (parse_source n source_program) (\<lambda>ast.
       obind (spam_exec n ast (spam_Interpreter Map.empty Map.empty))
         (\<lambda>(retval, s). ret (spam_printed s)))"

section \<open>Extended syntax trees (viper/_parser.py)\<close>

text \<open>
  The extended implementation has one class per node kind, each with its own \<open>eval\<close>
  or \<open>exec\<close> method. Its classes carry the names of the prototype's payload classes;
  the model prefixes them with \<open>V_\<close>. Both modules declare the same
  \<open>BinaryExpressionKind\<close> enumeration, which the model shares.
\<close>

datatype v_expression =
    V_CallExpression v_expression "v_expression list"
  | V_LiteralExpression rat
  | V_VariableExpression string
  | V_BinaryExpression binary_expression_kind v_expression v_expression
  | V_AssignExpression v_expression v_expression

datatype v_statement =
    V_LetStatement v_expression
  | V_PrintStatement v_expression
  | V_IfStatement v_expression v_statement "v_statement option"
  | V_FnStatement string "v_expression list" v_statement
  | V_BlockStatement "v_statement list"
  | V_ReturnStatement v_expression
  | V_WhileStatement v_expression v_statement
  | V_ForStatement v_expression v_expression v_expression v_statement
  | V_ExpressionStatement v_expression

section \<open>Extended interpreter runtime (viper/interpreter.py)\<close>

text \<open>
  \<open>Interpreter(_globals, _locals, functions, depth)\<close>, together with what has been
  printed so far. The two scopes are Python dictionaries that the program updates in
  place; the model treats them as two separate mappings, which is the case whenever
  the caller constructs the interpreter from two distinct dictionaries.
\<close>

record interpreter =
  globals :: "string \<rightharpoonup> val"
  locals :: "string \<rightharpoonup> val"
  functions' :: "string \<rightharpoonup> v_statement"
  depth :: int
  printed :: "val list"

definition is_local :: "interpreter \<Rightarrow> string \<Rightarrow> bool" where
  "is_local s name = (name \<in> dom (locals s))"

definition is_global :: "interpreter \<Rightarrow> string \<Rightarrow> bool" where
  "is_global s name = (name \<in> dom (globals s))"

definition resolve :: "interpreter \<Rightarrow> string \<Rightarrow> error + val" where
  "resolve s name =
     (if is_local s name then Inr (the (locals s name))
      else if is_global s name then Inr (the (globals s name))
      else Inl (NotDefined name))"

text \<open>\<open>del d[name]\<close>: KeyError when the key is absent.\<close>

definition py_del :: "('k \<rightharpoonup> 'v) \<Rightarrow> 'k \<Rightarrow> error + ('k \<rightharpoonup> 'v)" where
  "py_del d k = (if k \<in> dom d then Inr (d(k := None)) else Inl KeyError)"

text \<open>\<open>[arg.name for arg in f.arguments]\<close>: only a \<open>VariableExpression\<close> has a \<open>name\<close>.\<close>

fun arg_names :: "v_expression list \<Rightarrow> error + string list" where
  "arg_names [] = Inr []"
| "arg_names (V_VariableExpression name # xs) = bind (arg_names xs) (\<lambda>ns. Inr (name # ns))"
| "arg_names (_ # xs) = Inl AttributeError"

text \<open>
  \<open>viper_eval\<close> collects the \<open>eval\<close> methods of the expression classes, \<open>viper_exec\<close>
  the \<open>exec\<close> methods of the statement classes, \<open>viper_exec_list\<close> is
  \<open>Interpreter._exec\<close>, \<open>viper_eval_args\<close> the dictionary comprehension of
  \<open>CallExpression.eval\<close> and \<open>for_loop\<close> the \<open>while\<close> loop inside
  \<open>ForStatement.exec\<close>. The budget bounds the depth of nested calls of interpreted
  functions and the number of evaluations of a loop condition: a call and a loop need
  a positive budget, a function body and the next round of a loop run with one less;
  \<open>None\<close> means it ran out.

  A call saves the reference \<open>old_locals\<close> before it evaluates the arguments. The
  arguments are evaluated while that dictionary is still the active one, so their
  assignments update it in place; the scope restored after the call is therefore the
  locals mapping as it is after the arguments have been evaluated.
\<close>

function (sequential) viper_eval :: "nat \<Rightarrow> v_expression \<Rightarrow> interpreter \<Rightarrow> (val \<times> interpreter) outcome"
  and viper_eval_args :: "nat \<Rightarrow> string list \<Rightarrow> v_expression list \<Rightarrow> (string \<rightharpoonup> val) \<Rightarrow> interpreter \<Rightarrow> ((string \<rightharpoonup> val) \<times> interpreter) outcome"
  and viper_exec :: "nat \<Rightarrow> v_statement \<Rightarrow> interpreter \<Rightarrow> (val \<times> interpreter) outcome"
  and viper_exec_list :: "nat \<Rightarrow> v_statement list \<Rightarrow> interpreter \<Rightarrow> (val \<times> interpreter) outcome"
  and for_loop :: "nat \<Rightarrow> v_expression \<Rightarrow> v_statement \<Rightarrow> v_expression \<Rightarrow> interpreter \<Rightarrow> interpreter outcome"
where
  "viper_eval n (V_LiteralExpression x) s = ret (PyFloat x, s)"
| "viper_eval n (V_VariableExpression name) s = obind (lift (resolve s name)) (\<lambda>v. ret (v, s))"
| "viper_eval n (V_BinaryExpression ADD lhs rhs) s =
     binary py_add (viper_eval n lhs) (viper_eval n rhs) s"
| "viper_eval n (V_BinaryExpression SUB lhs rhs) s =
     binary py_sub (viper_eval n lhs) (viper_eval n rhs) s"
| "viper_eval n (V_BinaryExpression MUL lhs rhs) s =
     binary py_mul (viper_eval n lhs) (viper_eval n rhs) s"
| "viper_eval n (V_BinaryExpression DIV lhs rhs) s =
     binary py_truediv (viper_eval n lhs) (viper_eval n rhs) s"
| "viper_eval n (V_BinaryExpression LT lhs rhs) s =
     binary py_lt (viper_eval n lhs) (viper_eval n rhs) s"
| "viper_eval n (V_BinaryExpression ASSIGN lhs rhs) s = ret (PyNone, s)"
| "viper_eval n (V_AssignExpression (V_VariableExpression name) rhs) s =
     (if depth s > 0 then
        obind (viper_eval n rhs s) (\<lambda>(v, s1).
          ret (PyNone, s1\<lparr>locals := (locals s1)(name \<mapsto> v)\<rparr>))
      else
        obind (viper_eval n rhs s) (\<lambda>(v, s1).
          ret (PyNone, s1\<lparr>globals := (globals s1)(name \<mapsto> v)\<rparr>)))"
| "viper_eval n (V_AssignExpression _ rhs) s = raise AssertionError"
| "viper_eval 0 (V_CallExpression callee args) s = None"
| "viper_eval (Suc n) (V_CallExpression (V_VariableExpression name) args) s =
     (case functions' s name of
        None \<Rightarrow> raise KeyError
      | Some (V_FnStatement fname arguments body) \<Rightarrow>
          obind (lift (arg_names arguments)) (\<lambda>names.
          obind (viper_eval_args (Suc n) names args Map.empty s) (\<lambda>(new_locals, s1).
          obind (viper_exec n body (s1\<lparr>locals := new_locals\<rparr>)) (\<lambda>(retval, s2).
            ret (retval, s2\<lparr>locals := locals s1\<rparr>))))
      | Some _ \<Rightarrow> raise AttributeError)"
| "viper_eval (Suc n) (V_CallExpression _ args) s = raise AssertionError"
| "viper_eval_args n (k # ks) (v # vs) acc s =
     obind (viper_eval n v s) (\<lambda>(x, s1). viper_eval_args n ks vs (acc(k \<mapsto> x)) s1)"
| "viper_eval_args n _ _ acc s = ret (acc, s)"
| "viper_exec n (V_LetStatement initializer) s =
     obind (viper_eval n initializer s) (\<lambda>(v, s1). ret (PyNone, s1))"
| "viper_exec n (V_PrintStatement expr) s =
     obind (viper_eval n expr s) (\<lambda>(v, s1). ret (PyNone, s1\<lparr>printed := printed s1 @ [v]\<rparr>))"
| "viper_exec n (V_IfStatement condition then_branch None) s =
     obind (viper_eval n condition s) (\<lambda>(c, s1).
       if truthy c then viper_exec n then_branch s1 else ret (PyNone, s1))"
| "viper_exec n (V_IfStatement condition then_branch (Some else_branch)) s =
     obind (viper_eval n condition s) (\<lambda>(c, s1).
       if truthy c then viper_exec n then_branch s1 else viper_exec n else_branch s1)"
| "viper_exec n (V_FnStatement name arguments body) s =
     ret (PyNone, s\<lparr>functions' := (functions' s)(name \<mapsto> V_FnStatement name arguments body)\<rparr>)"
| "viper_exec n (V_BlockStatement body) s =
     obind (viper_exec_list n body (s\<lparr>depth := depth s + 1\<rparr>)) (\<lambda>(retval, s1).
       ret (retval, s1\<lparr>depth := depth s1 - 1\<rparr>))"
| "viper_exec n (V_ReturnStatement expr) s = viper_eval n expr s"
| "viper_exec 0 (V_WhileStatement condition body) s = None"
| "viper_exec (Suc n) (V_WhileStatement condition body) s =
     obind (viper_eval (Suc n) condition s) (\<lambda>(c, s1).
       if truthy c then
         obind (viper_exec (Suc n) body s1) (\<lambda>(r, s2).
           viper_exec n (V_WhileStatement condition body) s2)
       else ret (PyNone, s1))"
| "viper_exec n (V_ForStatement (V_AssignExpression (V_VariableExpression name) rhs) condition advancement body) s =
     obind (viper_eval n (V_AssignExpression (V_VariableExpression name) rhs) s) (\<lambda>(v, s1).
     obind (for_loop n condition body advancement s1) (\<lambda>s2.
       if depth s2 > 0 then
         obind (lift (py_del (locals s2) name)) (\<lambda>d. ret (PyNone, s2\<lparr>locals := d\<rparr>))
       else
         obind (lift (py_del (globals s2) name)) (\<lambda>d. ret (PyNone, s2\<lparr>globals := d\<rparr>))))"
| "viper_exec n (V_ForStatement _ condition advancement body) s = raise AssertionError"
| "viper_exec n (V_ExpressionStatement expr) s =
     obind (viper_eval n expr s) (\<lambda>(v, s1). ret (PyNone, s1))"
| "viper_exec_list n [] s = ret (PyNone, s)"
| "viper_exec_list n (st # ast) s =
     obind (viper_exec n st s) (\<lambda>(retval, s1).
       if retval \<noteq> PyNone then ret (retval, s1) else viper_exec_list n ast s1)"
| "for_loop 0 condition body advancement s = None"
| "for_loop (Suc n) condition body advancement s =
     obind (viper_eval (Suc n) condition s) (\<lambda>(c, s1).
       if truthy c then
         obind (viper_exec (Suc n) body s1) (\<lambda>(r, s2).
         obind (viper_eval (Suc n) advancement s2) (\<lambda>(v, s3).
           for_loop n condition body advancement s3))
       else ret s1)"
  by pat_completeness auto
termination
  by (relation "inv_image (less_than <*lex*> less_than <*lex*> less_than) (\<lambda>x. case x of
        Inl (Inl (n, e, s)) \<Rightarrow> (n, 0, size e)
      | Inl (Inr (n, ks, vs, acc, s)) \<Rightarrow> (n, 0, size_list size vs)
      | Inr (Inl (n, st, s)) \<Rightarrow> (n, Suc 0, 2 * size st)
      | Inr (Inr (Inl (n, ast, s))) \<Rightarrow> (n, Suc 0, 2 * size_list size ast)
      | Inr (Inr (Inr (n, c, b, a, s))) \<Rightarrow> (n, Suc 0, 2 * size b + 1))") auto

section \<open>Arithmetic expressions in both syntaxes\<close>






section \<open>What an execution of the extended interpreter leaves unchanged\<close>



section \<open>Freshly constructed interpreters\<close>

text \<open>\<open>Interpreter(_globals, _locals, functions)\<close> of the extended runtime: \<open>depth\<close> defaults to 0.\<close>

definition Interpreter :: "(string \<rightharpoonup> val) \<Rightarrow> (string \<rightharpoonup> val) \<Rightarrow> (string \<rightharpoonup> v_statement) \<Rightarrow> interpreter" where
  "Interpreter g l f = \<lparr>globals = g, locals = l, functions' = f, depth = 0, printed = []\<rparr>"

section \<open>Properties of the prototype lexer and parser\<close>

lemmas parser_defs =
  parse_def obind_def lift_def ret_def raise_def bind_def py_index_def check_def consume_def
  parse_expression_statement_def parse_let_statement_def parse_print_statement_def
  parse_return_statement_def expression_then_semicolon_def prefix_parse_def
  next_token_precedence_def binary_node_def

lemma tokenize_iffy_space:
  "tokenize (Tokenizer ''iffy '') =
     Inr [Token TK_IF ''if'', Token TK_IDENTIFIER ''fy'', Token TK_EOF '''']"
  by code_simp

text \<open>
  C2. Tokenizing the exact text \<open>iffy\<close> does not return a token list. The lookahead
  turns \<open>if\<close> into the IF token, as the claim says, but the identifier scan that
  follows reads \<open>source[c]\<close> without a bound check and runs off the end of the text:
  the lexer raises IndexError. (With one more character after the identifier the
  tokens are IF, IDENTIFIER \<open>fy\<close>, EOF: lemma \<open>tokenize_iffy_space\<close>.)
\<close>

theorem tokenize_iffy_index_error:
  "tokenize (Tokenizer ''iffy'') = Inl IndexError"
  by code_simp

lemma tokenize_1_plus_2_times_3:
  "tokenize (Tokenizer ''1 + 2 * 3;'') =
     Inr [Token TK_NUMBER ''1'', Token TK_PLUS ''+'', Token TK_NUMBER ''2'',
          Token TK_STAR ''*'', Token TK_NUMBER ''3'', Token TK_SEMICOLON '';'',
          Token TK_EOF '''']"
  by code_simp

lemma py_float_digits:
  "py_float ''0'' = Inr 0" "py_float ''1'' = Inr 1" "py_float ''2'' = Inr 2"
  "py_float ''3'' = Inr 3" "py_float ''10'' = Inr 10"
  by code_simp+

text \<open>
  C9. Parsing \<open>1 + 2 * 3;\<close> with the prototype lexer and parser yields one expression
  statement whose tree is Add(Literal 1, Mul(Literal 2, Literal 3)), for every
  recursion budget of at least 10.
\<close>

theorem parse_1_plus_2_times_3:
  "parse_source (n + 10) ''1 + 2 * 3;'' =
     Some (Inr [Statement SK_EXPRESSION (ExpressionStatement
       (Expression EK_BINARY (BinaryExpression ADD
          (Expression EK_LITERAL (LiteralExpression 1))
          (Expression EK_BINARY (BinaryExpression MUL
             (Expression EK_LITERAL (LiteralExpression 2))
             (Expression EK_LITERAL (LiteralExpression 3)))))))])"
proof -
  have fuel: "n + 10 = Suc (Suc (Suc (Suc (Suc (Suc (Suc (Suc (Suc (Suc n)))))))))"
    by simp
  show ?thesis
    unfolding parse_source_def tokenize_1_plus_2_times_3 fuel
    by (simp add: parser_defs py_float_digits)
qed

section \<open>The prototype's demo program\<close>

lemma tokenize_source_program:
  "tokenize (Tokenizer source_program) =
     Inr [Token TK_FN ''fn'', Token TK_IDENTIFIER ''fib'', Token TK_LPAREN ''('',
          Token TK_IDENTIFIER ''n'', Token TK_RPAREN '')'', Token TK_LBRACE ''{'',
          Token TK_IF ''if'', Token TK_LPAREN ''('', Token TK_IDENTIFIER ''n'',
          Token TK_LT ''<'', Token TK_NUMBER ''2'', Token TK_RPAREN '')'',
          Token TK_RETURN ''return'', Token TK_IDENTIFIER ''n'', Token TK_SEMICOLON '';'',
          Token TK_RETURN ''return'', Token TK_IDENTIFIER ''fib'', Token TK_LPAREN ''('',
          Token TK_IDENTIFIER ''n'', Token TK_MINUS ''-'', Token TK_NUMBER ''1'',
          Token TK_RPAREN '')'', Token TK_PLUS ''+'', Token TK_IDENTIFIER ''fib'',
          Token TK_LPAREN ''('', Token TK_IDENTIFIER ''n'', Token TK_MINUS ''-'',
          Token TK_NUMBER ''2'', Token TK_RPAREN '')'', Token TK_SEMICOLON '';'',
          Token TK_RBRACE ''}'', Token TK_PRINT ''print'', Token TK_IDENTIFIER ''fib'',
          Token TK_LPAREN ''('', Token TK_NUMBER ''10'', Token TK_RPAREN '')'',
          Token TK_SEMICOLON '';'', Token TK_EOF '''']"
  by code_simp

lemma fuel_22:
  "n + 22 = Suc (Suc (Suc (Suc (Suc (Suc (Suc (Suc (Suc (Suc (Suc (Suc (Suc (Suc (Suc (Suc
     (Suc (Suc (Suc (Suc (Suc (Suc n)))))))))))))))))))))"
  by simp

text \<open>The tree that the parser builds for the demo program.\<close>

lemma parse_source_program:
  "parse_source (n + 22) source_program =
     Some (Inr
       [Statement SK_FN (FnStatement ''fib''
          [Expression EK_VARIABLE (VariableExpression ''n'')]
          [Statement SK_IF (IfStatement
             (Expression EK_BINARY (BinaryExpression LT
                (Expression EK_VARIABLE (VariableExpression ''n''))
                (Expression EK_LITERAL (LiteralExpression 2))))
             (Statement SK_RETURN (ReturnStatement
                (Expression EK_VARIABLE (VariableExpression ''n''))))
             None),
           Statement SK_RETURN (ReturnStatement
             (Expression EK_BINARY (BinaryExpression ADD
                (Expression EK_CALL (CallExpression
                   (Expression EK_VARIABLE (VariableExpression ''fib''))
                   [Expression EK_BINARY (BinaryExpression SUB
                      (Expression EK_VARIABLE (VariableExpression ''n''))
                      (Expression EK_LITERAL (LiteralExpression 1)))]))
                (Expression EK_CALL (CallExpression
                   (Expression EK_VARIABLE (VariableExpression ''fib''))
                   [Expression EK_BINARY (BinaryExpression SUB
                      (Expression EK_VARIABLE (VariableExpression ''n''))
                      (Expression EK_LITERAL (LiteralExpression 2)))])))))]),
        Statement SK_PRINT (PrintStatement
          (Expression EK_CALL (CallExpression
             (Expression EK_VARIABLE (VariableExpression ''fib''))
             [Expression EK_LITERAL (LiteralExpression 10)])))])"
  unfolding parse_source_def tokenize_source_program fuel_22
  by (simp add: parser_defs py_float_digits)

lemmas eval_defs =
  obind_def lift_def ret_def raise_def bind_def binary_def
  py_add_def py_sub_def py_mul_def py_truediv_def py_lt_def py_arith_def

text \<open>
  C1. Running the prototype's driver on its embedded program (tokenize, parse, execute
  from empty tables) terminates without an exception and prints exactly one value, the
  float 55.0. This holds for every budget of at least 22, which bounds both the parser's
  recursion and the depth of nested calls of \<open>fib\<close>.
\<close>

theorem main_prints_55:
  "main (n + 22) = Some (Inr [PyFloat 55])"
  unfolding main_def parse_source_program spam_Interpreter_def
  unfolding fuel_22
  by (simp add: eval_defs)

section \<open>Gaps of the prototype evaluator\<close>

lemma fuel_10:
  "n + 10 = Suc (Suc (Suc (Suc (Suc (Suc (Suc (Suc (Suc (Suc n)))))))))"
  by simp

lemma tokenize_let_x:
  "tokenize (Tokenizer ''let x = 1;'') =
     Inr [Token TK_LET ''let'', Token TK_IDENTIFIER ''x'', Token TK_EQUAL ''='',
          Token TK_NUMBER ''1'', Token TK_SEMICOLON '';'', Token TK_EOF '''']"
  by code_simp

lemma parse_let_x:
  "parse_source (k + 10) ''let x = 1;'' =
     Some (Inr [Statement SK_LET (LetStatement (Expression EK_ASSIGN
       (BinaryExpression ASSIGN
          (Expression EK_VARIABLE (VariableExpression ''x''))
          (Expression EK_LITERAL (LiteralExpression 1)))))])"
  unfolding parse_source_def tokenize_let_x fuel_10
  by (simp add: parser_defs py_float_digits)

text \<open>
  C5. In the prototype, executing any statement tagged \<open>LET\<close> and evaluating any
  expression tagged \<open>ASSIGN\<close> end in the \<open>assert False\<close> at the bottom of the
  dispatch, whatever the payload, the state and the budget. Both constructs parse:
  \<open>let x = 1;\<close> becomes a \<open>LET\<close> statement around an \<open>ASSIGN\<close> expression, and
  executing the parsed program raises the same AssertionError.
\<close>

theorem spam_let_and_assign_unhandled:
  "spam_exec_stmt n (Statement SK_LET p) s = Some (Inl AssertionError)
   \<and> spam_eval n (Expression EK_ASSIGN v) s = Some (Inl AssertionError)
   \<and> parse_source (k + 10) ''let x = 1;'' =
       Some (Inr [Statement SK_LET (LetStatement (Expression EK_ASSIGN
         (BinaryExpression ASSIGN
            (Expression EK_VARIABLE (VariableExpression ''x''))
            (Expression EK_LITERAL (LiteralExpression 1)))))])
   \<and> obind (parse_source (k + 10) ''let x = 1;'') (\<lambda>ast. spam_exec n ast s) =
       Some (Inl AssertionError)"
  unfolding parse_let_x by (simp add: raise_def obind_def)

text \<open>
  C8. In the prototype, when the condition of an \<open>if\<close> evaluates to a false value, the
  statement returns \<open>None\<close> in exactly the state the condition left: neither branch
  runs. The else-branch is never looked at: with or without one, the statement behaves
  the same.
\<close>

theorem spam_if_false_skips_both:
  assumes "spam_eval n c s = Some (Inr (v, s1))" and "\<not> truthy v"
  shows "spam_exec_stmt n (Statement SK_IF (IfStatement c t e)) s = Some (Inr (PyNone, s1))
       \<and> spam_exec_stmt n (Statement SK_IF (IfStatement c t e)) s =
         spam_exec_stmt n (Statement SK_IF (IfStatement c t None)) s"
  using assms by (simp add: obind_def ret_def)

theorem spam_if_false_skips_both_witness:
  "spam_eval 0 (Expression EK_LITERAL (LiteralExpression 0)) (spam_Interpreter Map.empty Map.empty) =
     Some (Inr (PyFloat 0, spam_Interpreter Map.empty Map.empty))
   \<and> \<not> truthy (PyFloat 0)
   \<and> spam_exec_stmt 0
        (Statement SK_IF (IfStatement
           (Expression EK_LITERAL (LiteralExpression 0))
           (Statement SK_PRINT (PrintStatement (Expression EK_LITERAL (LiteralExpression 1))))
           (Some (Statement SK_PRINT (PrintStatement (Expression EK_LITERAL (LiteralExpression 2)))))))
        (spam_Interpreter Map.empty Map.empty) =
     Some (Inr (PyNone, spam_Interpreter Map.empty Map.empty))"
proof -
  have ev: "spam_eval 0 (Expression EK_LITERAL (LiteralExpression 0)) (spam_Interpreter Map.empty Map.empty) =
     Some (Inr (PyFloat 0, spam_Interpreter Map.empty Map.empty))"
    by (simp add: ret_def)
  have falsy: "\<not> truthy (PyFloat 0)"
    by simp
  from spam_if_false_skips_both [OF ev falsy] ev falsy show ?thesis
    by blast
qed

section \<open>The two evaluators on arithmetic\<close>


section \<open>Scopes and depth in the extended interpreter\<close>















lemmas scope_defs = resolve_def is_local_def is_global_def py_del_def dom_def



text \<open>
  C7. Whenever the execution of a \<open>while\<close> statement of the extended interpreter
  returns, it returns \<open>None\<close>, for every condition, body, state and budget: the value
  that an iteration of the body returns is dropped.
\<close>

theorem while_yields_no_result:
  "viper_exec n (V_WhileStatement condition body) s = Some (Inr (r, s')) \<Longrightarrow> r = PyNone"
proof (induction n arbitrary: s)
  case 0
  then show ?case by simp
next
  case (Suc n)
  from Suc.prems show ?case
    by (auto simp: obind_def ret_def split: option.splits sum.splits if_splits dest: Suc.IH)
qed

text \<open>
  The witness is \<open>while (i < 1) { i = i + 1; return 5; }\<close> with the global \<open>i = 0\<close>:
  the body returns 5.0 in its only iteration, the loop returns \<open>None\<close>.
\<close>

theorem while_yields_no_result_witness:
  "(\<exists>s1. viper_exec (Suc (Suc 0))
            (V_BlockStatement
               [V_ExpressionStatement (V_AssignExpression (V_VariableExpression ''i'')
                  (V_BinaryExpression ADD (V_VariableExpression ''i'') (V_LiteralExpression 1))),
                V_ReturnStatement (V_LiteralExpression 5)])
            (Interpreter [''i'' \<mapsto> PyFloat 0] Map.empty Map.empty) =
          Some (Inr (PyFloat 5, s1)))
   \<and> (\<exists>r s'. viper_exec (Suc (Suc 0))
            (V_WhileStatement
               (V_BinaryExpression LT (V_VariableExpression ''i'') (V_LiteralExpression 1))
               (V_BlockStatement
                  [V_ExpressionStatement (V_AssignExpression (V_VariableExpression ''i'')
                     (V_BinaryExpression ADD (V_VariableExpression ''i'') (V_LiteralExpression 1))),
                   V_ReturnStatement (V_LiteralExpression 5)]))
            (Interpreter [''i'' \<mapsto> PyFloat 0] Map.empty Map.empty) =
          Some (Inr (r, s'))
        \<and> r = PyNone)"
proof -
  let ?s = "Interpreter [''i'' \<mapsto> PyFloat 0] Map.empty Map.empty"
  let ?body = "V_BlockStatement
     [V_ExpressionStatement (V_AssignExpression (V_VariableExpression ''i'')
        (V_BinaryExpression ADD (V_VariableExpression ''i'') (V_LiteralExpression 1))),
      V_ReturnStatement (V_LiteralExpression 5)]"
  let ?loop = "V_WhileStatement
     (V_BinaryExpression LT (V_VariableExpression ''i'') (V_LiteralExpression 1)) ?body"
  have body: "\<exists>s1. viper_exec (Suc (Suc 0)) ?body ?s = Some (Inr (PyFloat 5, s1))"
    by (simp add: Interpreter_def eval_defs scope_defs)
  have "\<exists>r s'. viper_exec (Suc (Suc 0)) ?loop ?s = Some (Inr (r, s'))"
    by (simp add: Interpreter_def eval_defs scope_defs)
  then obtain r s' where run: "viper_exec (Suc (Suc 0)) ?loop ?s = Some (Inr (r, s'))"
    by blast
  from while_yields_no_result [OF run] run body show ?thesis
    by blast
qed






end
